theory Spec2Isabelle
  imports Complex_Main
begin

section \<open>Transport models of SU2: \<open>SU2_CFD/src/transport_model.cpp\<close>\<close>

subsection \<open>The arithmetic of \<open>double\<close>\<close>

text \<open>
  The methods of this file compute with the operators \<open>+\<close>, \<open>-\<close>, \<open>*\<close>, \<open>/\<close> of C on
  \<open>double\<close>, with \<open>pow\<close> of \<open><math.h>\<close> and with a few literals. What these give is
  fixed by the hardware and by the C library, not by the file: the arithmetic is a
  parameter \<open>ar\<close> of every method, over a type \<open>'d\<close> of doubles of which nothing is
  supposed. A statement made for every \<open>ar\<close> holds of the arithmetic of the machine,
  with its rounding, overflow, infinities and NaNs.

  \<open>lit\<close> is the double that a literal such as \<open>0.0\<close> or \<open>3.0\<close> denotes, \<open>fpclassify\<close> is
  the macro of \<open><math.h>\<close>.
\<close>

datatype fpclass = FP_NAN | FP_INFINITE | FP_ZERO | FP_SUBNORMAL | FP_NORMAL

record 'd arith =
  lit :: "real \<Rightarrow> 'd"
  d_add :: "'d \<Rightarrow> 'd \<Rightarrow> 'd"
  d_sub :: "'d \<Rightarrow> 'd \<Rightarrow> 'd"
  d_mul :: "'d \<Rightarrow> 'd \<Rightarrow> 'd"
  d_div :: "'d \<Rightarrow> 'd \<Rightarrow> 'd"
  d_pow :: "'d \<Rightarrow> 'd \<Rightarrow> 'd"
  fpclassify :: "'d \<Rightarrow> fpclass"

text \<open>
  Three identities of IEEE 754 and C99 arithmetic, which hold with any rounding:
  a finite number other than zero divided by itself is \<open>1.0\<close> (the quotient is exact);
  \<open>pow(1.0, y)\<close> is \<open>1.0\<close> for every \<open>y\<close>, a NaN included (C99, F.9.4.4);
  a number times \<open>1.0\<close> is that number (the product is exact).
\<close>

definition ieee_identities :: "'d arith \<Rightarrow> bool" where
  "ieee_identities ar \<longleftrightarrow>
     (\<forall>x. fpclassify ar x = FP_NORMAL \<or> fpclassify ar x = FP_SUBNORMAL \<longrightarrow>
            d_div ar x x = lit ar 1) \<and>
     (\<forall>y. d_pow ar (lit ar 1) y = lit ar 1) \<and>
     (\<forall>x. fpclassify ar x \<noteq> FP_NAN \<longrightarrow> d_mul ar x (lit ar 1) = x)"

subsection \<open>Exact arithmetic\<close>

text \<open>
  The algebraic statements about the formulas (a closed form, a derivative) are made in
  exact arithmetic: a value is a real number, or \<open>None\<close> where the real operation has no
  value and the machine gives a NaN or an infinity, that is for a quotient by zero and for
  a power of a negative number with the exponents of this file, \<open>3.0/2.0\<close> and
  \<open>1.0/2.0\<close>. Nothing is rounded and nothing overflows. \<open>None\<close> as an operand gives
  \<open>None\<close>, but for \<open>pow(1.0, y)\<close>.
\<close>

type_synonym exact_double = "real option"

definition exact_add :: "exact_double \<Rightarrow> exact_double \<Rightarrow> exact_double" where
  "exact_add x y = (case x of None \<Rightarrow> None | Some a \<Rightarrow>
                     (case y of None \<Rightarrow> None | Some b \<Rightarrow> Some (a + b)))"

definition exact_sub :: "exact_double \<Rightarrow> exact_double \<Rightarrow> exact_double" where
  "exact_sub x y = (case x of None \<Rightarrow> None | Some a \<Rightarrow>
                     (case y of None \<Rightarrow> None | Some b \<Rightarrow> Some (a - b)))"

definition exact_mul :: "exact_double \<Rightarrow> exact_double \<Rightarrow> exact_double" where
  "exact_mul x y = (case x of None \<Rightarrow> None | Some a \<Rightarrow>
                     (case y of None \<Rightarrow> None | Some b \<Rightarrow> Some (a * b)))"

definition exact_div :: "exact_double \<Rightarrow> exact_double \<Rightarrow> exact_double" where
  "exact_div x y = (case x of None \<Rightarrow> None | Some a \<Rightarrow>
                     (case y of None \<Rightarrow> None | Some b \<Rightarrow>
                       if b = 0 then None else Some (a / b)))"

definition exact_pow :: "exact_double \<Rightarrow> exact_double \<Rightarrow> exact_double" where
  \<comment> \<open>\<open>pow(x, y)\<close> for \<open>x = 1.0\<close>, where it is \<open>1.0\<close> whatever \<open>y\<close> is, and for an
      exponent that is positive and not an integer, as the two of this file are: there
      \<open>pow\<close> of a negative number is a NaN and \<open>pow\<close> of zero is zero.\<close>
  "exact_pow x y =
     (if x = Some 1 then Some 1
      else (case x of None \<Rightarrow> None | Some a \<Rightarrow>
             (case y of None \<Rightarrow> None | Some b \<Rightarrow>
               if a < 0 then None else Some (a powr b))))"

definition exact_fpclassify :: "exact_double \<Rightarrow> fpclass" where
  "exact_fpclassify x =
     (case x of None \<Rightarrow> FP_NAN | Some a \<Rightarrow> if a = 0 then FP_ZERO else FP_NORMAL)"

definition exact :: "exact_double arith" where
  "exact = \<lparr>lit = Some, d_add = exact_add, d_sub = exact_sub, d_mul = exact_mul,
            d_div = exact_div, d_pow = exact_pow, fpclassify = exact_fpclassify\<rparr>"

subsection \<open>Dynamic viscosity models\<close>

record 'd CViscosityModel =
  Mu :: 'd
  dmudrho_T :: 'd
  dmudT_rho :: 'd

definition CViscosityModel_ctor :: "'d arith \<Rightarrow> 'd CViscosityModel" where
  "CViscosityModel_ctor ar = \<lparr>Mu = lit ar 0, dmudrho_T = lit ar 0, dmudT_rho = lit ar 0\<rparr>"

text \<open>\<open>CConstantViscosity\<close> adds no member to its base class.\<close>

type_synonym 'd CConstantViscosity = "'d CViscosityModel"

definition CConstantViscosity_ctor_void :: "'d arith \<Rightarrow> 'd CConstantViscosity" where
  "CConstantViscosity_ctor_void ar = CViscosityModel_ctor ar"

definition CConstantViscosity_ctor :: "'d arith \<Rightarrow> 'd \<Rightarrow> 'd CConstantViscosity" where
  "CConstantViscosity_ctor ar mu_const =
     (CViscosityModel_ctor ar)
       \<lparr>Mu := mu_const, dmudrho_T := lit ar 0, dmudT_rho := lit ar 0\<rparr>"

text \<open>Modelled from the spec: \<open>SetViscosity\<close> and \<open>SetDerViscosity\<close> of the constant
  model. Their bodies are in the header of the class (\<open>transport_model.hpp\<close> and its
  inline file), which is not among the sources; the specification says of the Constant
  variant that "evaluate/evaluateDerivatives are no-ops".\<close>

definition CConstantViscosity_SetViscosity ::
    "'d \<Rightarrow> 'd \<Rightarrow> 'd CConstantViscosity \<Rightarrow> 'd CConstantViscosity" where
  "CConstantViscosity_SetViscosity T rho this = this"

definition CConstantViscosity_SetDerViscosity ::
    "'d \<Rightarrow> 'd \<Rightarrow> 'd CConstantViscosity \<Rightarrow> 'd CConstantViscosity" where
  "CConstantViscosity_SetDerViscosity T rho this = this"

record 'd CSutherland = "'d CViscosityModel" +
  Mu_ref :: 'd
  T_ref :: 'd
  S :: 'd

definition CSutherland_ctor_void :: "'d arith \<Rightarrow> 'd CSutherland" where
  "CSutherland_ctor_void ar =
     CViscosityModel.extend (CViscosityModel_ctor ar)
       \<lparr>Mu_ref = lit ar 0, T_ref = lit ar 0, S = lit ar 0\<rparr>"

definition CSutherland_ctor :: "'d arith \<Rightarrow> 'd \<Rightarrow> 'd \<Rightarrow> 'd \<Rightarrow> 'd CSutherland" where
  "CSutherland_ctor ar mu_ref t_ref s =
     CViscosityModel.extend (CViscosityModel_ctor ar)
       \<lparr>Mu_ref = mu_ref, T_ref = t_ref, S = s\<rparr>"

definition CSutherland_SetViscosity ::
    "'d arith \<Rightarrow> 'd \<Rightarrow> 'd \<Rightarrow> 'd CSutherland \<Rightarrow> 'd CSutherland" where
  "CSutherland_SetViscosity ar T rho this =
     this\<lparr>Mu :=
       d_mul ar
         (d_mul ar (Mu_ref this)
            (d_pow ar (d_div ar T (T_ref this)) (d_div ar (lit ar 3) (lit ar 2))))
         (d_div ar (d_add ar (T_ref this) (S this)) (d_add ar T (S this)))\<rparr>"

definition CSutherland_SetDerViscosity ::
    "'d arith \<Rightarrow> 'd \<Rightarrow> 'd \<Rightarrow> 'd CSutherland \<Rightarrow> 'd CSutherland" where
  "CSutherland_SetDerViscosity ar T rho this =
     (let this1 = this\<lparr>dmudrho_T := lit ar 0\<rparr>
      in this1\<lparr>dmudT_rho :=
           d_mul ar (Mu_ref this1)
             (d_sub ar
               (d_mul ar
                  (d_mul ar (d_div ar (lit ar 3) (lit ar 2))
                     (d_pow ar (d_div ar T (T_ref this1)) (d_div ar (lit ar 1) (lit ar 2))))
                  (d_div ar (d_add ar (T_ref this1) (S this1)) (d_add ar T (S this1))))
               (d_div ar
                  (d_div ar
                     (d_mul ar
                        (d_pow ar (d_div ar T (T_ref this1)) (d_div ar (lit ar 3) (lit ar 2)))
                        (d_add ar (T_ref this1) (S this1)))
                     (d_add ar T (S this1)))
                  (d_add ar T (S this1))))\<rparr>)"

subsection \<open>The FluidProp library and the standard output\<close>

text \<open>
  \<open>fluidprop_alltransprops\<close> and \<open>fluidprop_geterror\<close> are functions of the FluidProp
  library (\<open>fluidprop.h\<close>), which is not part of SU2: the library is a parameter of the
  model. \<open>fluidprop_alltransprops\<close> gets an input specification, two doubles and seven
  addresses, to each of which it writes a result, in this order; it keeps the message of
  the last call in the library, where \<open>fluidprop_geterror\<close> reads it.
\<close>

record 'd transprops =
  eta :: 'd
  deta_dT :: 'd
  deta_drho :: 'd
  lambda :: 'd
  dlambda_dT :: 'd
  dlambda_drho :: 'd
  sigma :: 'd

record ('d, 'l) fluidprop =
  fluidprop_alltransprops :: "string \<Rightarrow> 'd \<Rightarrow> 'd \<Rightarrow> 'l \<Rightarrow> 'd transprops \<times> 'l"
  fluidprop_geterror :: "'l \<Rightarrow> string"

text \<open>A call of \<open>printf\<close> is kept as its format and its arguments; the standard output
  is the list of the calls made so far.\<close>

datatype 'd printf_arg = Str string | Dbl 'd

type_synonym 'd printf_call = "string \<times> 'd printf_arg list"

text \<open>What a method can touch besides its object: the state of the library and the
  standard output.\<close>

record ('d, 'l) world =
  library :: 'l
  stdout :: "'d printf_call list"

definition printf :: "string \<Rightarrow> 'd printf_arg list \<Rightarrow> ('d, 'l) world \<Rightarrow> ('d, 'l) world" where
  "printf fmt args w = w\<lparr>stdout := stdout w @ [(fmt, args)]\<rparr>"

type_synonym 'd CFluidPropViscosity = "'d CViscosityModel"

definition CFluidPropViscosity_ctor :: "'d arith \<Rightarrow> 'd CFluidPropViscosity" where
  "CFluidPropViscosity_ctor ar = CViscosityModel_ctor ar"

definition CFluidPropViscosity_SetViscosity ::
    "('d, 'l) fluidprop \<Rightarrow> 'd \<Rightarrow> 'd \<Rightarrow> 'd CFluidPropViscosity \<times> ('d, 'l) world
       \<Rightarrow> 'd CFluidPropViscosity \<times> ('d, 'l) world" where
  "CFluidPropViscosity_SetViscosity fp T rho = (\<lambda>(this, w).
     (let (r, l) = fluidprop_alltransprops fp ''Td'' T rho (library w);
          this = this\<lparr>Mu := eta r\<rparr>;
          w = w\<lparr>library := l\<rparr>
      in if fluidprop_geterror fp (library w) \<noteq> ''No errors''
         then (this,
               printf (''T = %f, rho = %f, mu = %f'' @ [CHR 0x0A])
                      [Dbl T, Dbl rho, Dbl (Mu this)]
                 (printf (''FluidProp error message: %s'' @ [CHR 0x0A])
                         [Str (fluidprop_geterror fp (library w))] w))
         else (this, w)))"

definition CFluidPropViscosity_SetDerViscosity ::
    "('d, 'l) fluidprop \<Rightarrow> 'd \<Rightarrow> 'd \<Rightarrow> 'd CFluidPropViscosity \<times> ('d, 'l) world
       \<Rightarrow> 'd CFluidPropViscosity \<times> ('d, 'l) world" where
  "CFluidPropViscosity_SetDerViscosity fp T rho = (\<lambda>(this, w).
     (let (r, l) = fluidprop_alltransprops fp ''Td'' T rho (library w);
          this = this\<lparr>dmudT_rho := deta_dT r, dmudrho_T := deta_drho r\<rparr>;
          w = w\<lparr>library := l\<rparr>
      in if fluidprop_geterror fp (library w) \<noteq> ''No errors''
         then (this,
               printf (''T = %f, rho = %f, dmudT_rho = %f, dmudrho_dT = %f'' @ [CHR 0x0A])
                      [Dbl T, Dbl rho, Dbl (dmudT_rho this), Dbl (dmudT_rho this)]
                 (printf (''FluidProp error message: %s'' @ [CHR 0x0A])
                         [Str (fluidprop_geterror fp (library w))] w))
         else (this, w)))"

subsection \<open>Thermal conductivity models\<close>

record 'd CConductivityModel =
  Kt :: 'd
  dktdrho_T :: 'd
  dktdT_rho :: 'd

definition CConductivityModel_ctor :: "'d arith \<Rightarrow> 'd CConductivityModel" where
  "CConductivityModel_ctor ar = \<lparr>Kt = lit ar 0, dktdrho_T = lit ar 0, dktdT_rho = lit ar 0\<rparr>"

type_synonym 'd CConstantConductivity = "'d CConductivityModel"

definition CConstantConductivity_ctor_void :: "'d arith \<Rightarrow> 'd CConstantConductivity" where
  "CConstantConductivity_ctor_void ar = CConductivityModel_ctor ar"

definition CConstantConductivity_ctor :: "'d arith \<Rightarrow> 'd \<Rightarrow> 'd CConstantConductivity" where
  "CConstantConductivity_ctor ar kt_const =
     (CConductivityModel_ctor ar)
       \<lparr>Kt := kt_const, dktdrho_T := lit ar 0, dktdT_rho := lit ar 0\<rparr>"

text \<open>Modelled from the spec: \<open>SetConductivity\<close> and \<open>SetDerConductivity\<close> of the
  constant model, whose bodies are in the header as well; the specification says of the
  Constant variant "Kt fixed at construction; both operations no-ops". (A parameter that
  has the name of a member of the viscosity classes is written with a prime.)\<close>

definition CConstantConductivity_SetConductivity ::
    "'d \<Rightarrow> 'd \<Rightarrow> 'd \<Rightarrow> 'd \<Rightarrow> 'd CConstantConductivity \<Rightarrow> 'd CConstantConductivity" where
  "CConstantConductivity_SetConductivity T rho mu cp this = this"

definition CConstantConductivity_SetDerConductivity ::
    "'d \<Rightarrow> 'd \<Rightarrow> 'd \<Rightarrow> 'd \<Rightarrow> 'd \<Rightarrow> 'd CConstantConductivity
       \<Rightarrow> 'd CConstantConductivity" where
  "CConstantConductivity_SetDerConductivity T rho dmudrho_T' dmudT_rho' cp this = this"

record 'd CConstantPrandtl = "'d CConductivityModel" +
  Pr_const :: 'd

text \<open>The constructor without argument leaves \<open>Pr_const\<close> as it finds it: \<open>indet\<close> is
  the content of the member at that time.\<close>

definition CConstantPrandtl_ctor_void :: "'d arith \<Rightarrow> 'd \<Rightarrow> 'd CConstantPrandtl" where
  "CConstantPrandtl_ctor_void ar indet =
     CConductivityModel.extend (CConductivityModel_ctor ar) \<lparr>Pr_const = indet\<rparr>"

definition CConstantPrandtl_ctor :: "'d arith \<Rightarrow> 'd \<Rightarrow> 'd CConstantPrandtl" where
  "CConstantPrandtl_ctor ar pr_const =
     CConductivityModel.extend (CConductivityModel_ctor ar) \<lparr>Pr_const = pr_const\<rparr>"

definition CConstantPrandtl_SetConductivity ::
    "'d arith \<Rightarrow> 'd \<Rightarrow> 'd \<Rightarrow> 'd \<Rightarrow> 'd \<Rightarrow> 'd CConstantPrandtl \<Rightarrow> 'd CConstantPrandtl" where
  "CConstantPrandtl_SetConductivity ar T rho mu cp this =
     this\<lparr>Kt := d_div ar (d_mul ar mu cp) (Pr_const this)\<rparr>"

definition CConstantPrandtl_SetDerConductivity ::
    "'d arith \<Rightarrow> 'd \<Rightarrow> 'd \<Rightarrow> 'd \<Rightarrow> 'd \<Rightarrow> 'd \<Rightarrow> 'd CConstantPrandtl
       \<Rightarrow> 'd CConstantPrandtl" where
  "CConstantPrandtl_SetDerConductivity ar T rho dmudrho_T' dmudT_rho' cp this =
     (let this1 = this\<lparr>dktdrho_T := d_div ar (d_mul ar dmudrho_T' cp) (Pr_const this)\<rparr>
      in this1\<lparr>dktdT_rho := d_div ar (d_mul ar dmudT_rho' cp) (Pr_const this1)\<rparr>)"

record 'd CFluidPropConductivity = "'d CConductivityModel" +
  Pr_const :: 'd

definition CFluidPropConductivity_ctor_void ::
    "'d arith \<Rightarrow> 'd \<Rightarrow> 'd CFluidPropConductivity" where
  "CFluidPropConductivity_ctor_void ar indet =
     CConductivityModel.extend (CConductivityModel_ctor ar)
       \<lparr>CFluidPropConductivity.Pr_const = indet\<rparr>"

definition CFluidPropConductivity_ctor :: "'d arith \<Rightarrow> 'd \<Rightarrow> 'd CFluidPropConductivity" where
  "CFluidPropConductivity_ctor ar pr_const =
     CConductivityModel.extend (CConductivityModel_ctor ar)
       \<lparr>CFluidPropConductivity.Pr_const = pr_const\<rparr>"

definition CFluidPropConductivity_SetConductivity ::
    "('d, 'l) fluidprop \<Rightarrow> 'd \<Rightarrow> 'd \<Rightarrow> 'd \<Rightarrow> 'd
       \<Rightarrow> 'd CFluidPropConductivity \<times> ('d, 'l) world
       \<Rightarrow> 'd CFluidPropConductivity \<times> ('d, 'l) world" where
  "CFluidPropConductivity_SetConductivity fp T rho mu cp = (\<lambda>(this, w).
     (let (r, l) = fluidprop_alltransprops fp ''Td'' T rho (library w);
          this = this\<lparr>Kt := lambda r\<rparr>;
          w = w\<lparr>library := l\<rparr>
      in if fluidprop_geterror fp (library w) \<noteq> ''No errors''
         then (this,
               printf (''T = %f, rho = %f, Kt = %f'' @ [CHR 0x0A])
                      [Dbl T, Dbl rho, Dbl (Kt this)]
                 (printf (''FluidProp error message: %s'' @ [CHR 0x0A])
                         [Str (fluidprop_geterror fp (library w))] w))
         else (this, w)))"

definition CFluidPropConductivity_SetDerConductivity ::
    "('d, 'l) fluidprop \<Rightarrow> 'd \<Rightarrow> 'd \<Rightarrow> 'd \<Rightarrow> 'd \<Rightarrow> 'd
       \<Rightarrow> 'd CFluidPropConductivity \<times> ('d, 'l) world
       \<Rightarrow> 'd CFluidPropConductivity \<times> ('d, 'l) world" where
  "CFluidPropConductivity_SetDerConductivity fp T rho dmudrho_T' dmudT_rho' cp = (\<lambda>(this, w).
     (let (r, l) = fluidprop_alltransprops fp ''Td'' T rho (library w);
          this = this\<lparr>dktdT_rho := dlambda_dT r, dktdrho_T := dlambda_drho r\<rparr>;
          w = w\<lparr>library := l\<rparr>
      in if fluidprop_geterror fp (library w) \<noteq> ''No errors''
         then (this,
               printf (''T = %f, rho = %f, dktdT_rho = %f, dktdrho_dT = %f'' @ [CHR 0x0A])
                      [Dbl T, Dbl rho, Dbl (dktdT_rho this), Dbl (dktdT_rho this)]
                 (printf (''FluidProp error message: %s'' @ [CHR 0x0A])
                         [Str (fluidprop_geterror fp (library w))] w))
         else (this, w)))"

subsection \<open>Sequences of evaluation calls\<close>

text \<open>The evaluation calls a solver can make on a model, and what each does on every
  variant; a sequence of calls is run with \<open>fold\<close>.\<close>

datatype 'd viscosity_call =
  SetViscosity 'd 'd
| SetDerViscosity 'd 'd

datatype 'd conductivity_call =
  SetConductivity 'd 'd 'd 'd
| SetDerConductivity 'd 'd 'd 'd 'd

fun CConstantViscosity_call ::
    "'d viscosity_call \<Rightarrow> 'd CConstantViscosity \<Rightarrow> 'd CConstantViscosity" where
  "CConstantViscosity_call (SetViscosity T rho) = CConstantViscosity_SetViscosity T rho"
| "CConstantViscosity_call (SetDerViscosity T rho) = CConstantViscosity_SetDerViscosity T rho"

fun CSutherland_call ::
    "'d arith \<Rightarrow> 'd viscosity_call \<Rightarrow> 'd CSutherland \<Rightarrow> 'd CSutherland" where
  "CSutherland_call ar (SetViscosity T rho) = CSutherland_SetViscosity ar T rho"
| "CSutherland_call ar (SetDerViscosity T rho) = CSutherland_SetDerViscosity ar T rho"

fun CConstantConductivity_call ::
    "'d conductivity_call \<Rightarrow> 'd CConstantConductivity \<Rightarrow> 'd CConstantConductivity" where
  "CConstantConductivity_call (SetConductivity T rho mu cp) =
     CConstantConductivity_SetConductivity T rho mu cp"
| "CConstantConductivity_call (SetDerConductivity T rho dmudrho_T' dmudT_rho' cp) =
     CConstantConductivity_SetDerConductivity T rho dmudrho_T' dmudT_rho' cp"

fun CConstantPrandtl_call ::
    "'d arith \<Rightarrow> 'd conductivity_call \<Rightarrow> 'd CConstantPrandtl \<Rightarrow> 'd CConstantPrandtl" where
  "CConstantPrandtl_call ar (SetConductivity T rho mu cp) =
     CConstantPrandtl_SetConductivity ar T rho mu cp"
| "CConstantPrandtl_call ar (SetDerConductivity T rho dmudrho_T' dmudT_rho' cp) =
     CConstantPrandtl_SetDerConductivity ar T rho dmudrho_T' dmudT_rho' cp"

fun CFluidPropConductivity_call ::
    "('d, 'l) fluidprop \<Rightarrow> 'd conductivity_call
       \<Rightarrow> 'd CFluidPropConductivity \<times> ('d, 'l) world
       \<Rightarrow> 'd CFluidPropConductivity \<times> ('d, 'l) world" where
  "CFluidPropConductivity_call fp (SetConductivity T rho mu cp) =
     CFluidPropConductivity_SetConductivity fp T rho mu cp"
| "CFluidPropConductivity_call fp (SetDerConductivity T rho dmudrho_T' dmudT_rho' cp) =
     CFluidPropConductivity_SetDerConductivity fp T rho dmudrho_T' dmudT_rho' cp"

subsection \<open>The closed forms of the specification\<close>

text \<open>
  The two formulas the specification gives for the Sutherland law, read with the usual
  precedences, in exact arithmetic:
  \<^verbatim>\<open>Mu = Mu_ref * (T/T_ref)^1.5 * (T_ref + S) / (T + S)\<close> and
  \<^verbatim>\<open>dMu/dT = Mu_ref * [ 1.5*(T/T_ref)^0.5 * (T_ref+S)/(T+S)
                     - (T/T_ref)^1.5 * (T_ref+S)/(T+S)^2 ]\<close>.
\<close>

definition spec_Sutherland_Mu ::
    "exact_double \<Rightarrow> exact_double \<Rightarrow> exact_double \<Rightarrow> exact_double \<Rightarrow> exact_double" where
  "spec_Sutherland_Mu mu_ref t_ref s T =
     exact_div
       (exact_mul (exact_mul mu_ref (exact_pow (exact_div T t_ref) (Some 1.5)))
                  (exact_add t_ref s))
       (exact_add T s)"

definition spec_Sutherland_dMudT ::
    "exact_double \<Rightarrow> exact_double \<Rightarrow> exact_double \<Rightarrow> exact_double \<Rightarrow> exact_double" where
  "spec_Sutherland_dMudT mu_ref t_ref s T =
     exact_mul mu_ref
       (exact_sub
          (exact_div
             (exact_mul (exact_mul (Some 1.5) (exact_pow (exact_div T t_ref) (Some 0.5)))
                        (exact_add t_ref s))
             (exact_add T s))
          (exact_div
             (exact_mul (exact_pow (exact_div T t_ref) (Some 1.5)) (exact_add t_ref s))
             (exact_mul (exact_add T s) (exact_add T s))))"

subsection \<open>A library that reports an error\<close>

text \<open>A FluidProp whose state is the message of its last call, and whose every call
  fails: it writes the numbers 1 to 7 to its seven results and leaves a message that is
  not \<open>No errors\<close>.\<close>

definition failing_fluidprop :: "(exact_double, string) fluidprop" where
  "failing_fluidprop = \<lparr>
     fluidprop_alltransprops = (\<lambda>mode T rho l.
       (\<lparr>eta = Some 1, deta_dT = Some 2, deta_drho = Some 3, lambda = Some 4,
         dlambda_dT = Some 5, dlambda_drho = Some 6, sigma = Some 7\<rparr>,
        if mode = ''Td'' then ''Input out of range'' else ''Unknown input specification'')),
     fluidprop_geterror = (\<lambda>l. l)\<rparr>"

subsection \<open>Evaluation of the exact arithmetic and of the constructors\<close>

lemma exact_add_simps [simp]:
  "exact_add (Some a) (Some b) = Some (a + b)" "exact_add None y = None"
  "exact_add x None = None"
  by (simp_all add: exact_add_def split: option.splits)

lemma exact_sub_simps [simp]:
  "exact_sub (Some a) (Some b) = Some (a - b)" "exact_sub None y = None"
  "exact_sub x None = None"
  by (simp_all add: exact_sub_def split: option.splits)

lemma exact_mul_simps [simp]:
  "exact_mul (Some a) (Some b) = Some (a * b)" "exact_mul None y = None"
  "exact_mul x None = None"
  by (simp_all add: exact_mul_def split: option.splits)

lemma exact_div_simps [simp]:
  "exact_div (Some a) (Some b) = (if b = 0 then None else Some (a / b))"
  "exact_div None y = None" "exact_div x None = None"
  by (simp_all add: exact_div_def split: option.splits)

lemma exact_pow_simps [simp]:
  "exact_pow (Some a) (Some b) = (if a < 0 then None else Some (a powr b))"
  "exact_pow None y = None" "exact_pow (Some 1) y = Some 1"
  by (simp_all add: exact_pow_def)

lemma exact_fpclassify_simps [simp]:
  "exact_fpclassify (Some a) = (if a = 0 then FP_ZERO else FP_NORMAL)"
  "exact_fpclassify None = FP_NAN"
  by (simp_all add: exact_fpclassify_def)

lemma exact_sel [simp]:
  "lit exact = Some" "d_add exact = exact_add" "d_sub exact = exact_sub"
  "d_mul exact = exact_mul" "d_div exact = exact_div" "d_pow exact = exact_pow"
  "fpclassify exact = exact_fpclassify"
  by (simp_all add: exact_def)

text \<open>The exact arithmetic has the three identities.\<close>

lemma ieee_identities_exact: "ieee_identities exact"
  unfolding ieee_identities_def
proof (intro conjI allI impI)
  fix x :: exact_double
  assume "fpclassify exact x = FP_NORMAL \<or> fpclassify exact x = FP_SUBNORMAL"
  then show "d_div exact x x = lit exact 1"
    by (cases x) (simp_all split: if_splits)
next
  fix y :: exact_double
  show "d_pow exact (lit exact 1) y = lit exact 1" by simp
next
  fix x :: exact_double
  assume "fpclassify exact x \<noteq> FP_NAN"
  then show "d_mul exact x (lit exact 1) = x"
    by (cases x) simp_all
qed

lemmas ctor_defs =
  CViscosityModel_ctor_def CSutherland_ctor_def CSutherland_ctor_void_def
  CConstantViscosity_ctor_def CConstantViscosity_ctor_void_def CFluidPropViscosity_ctor_def
  CConductivityModel_ctor_def CConstantConductivity_ctor_def
  CConstantConductivity_ctor_void_def CConstantPrandtl_ctor_def CConstantPrandtl_ctor_void_def
  CFluidPropConductivity_ctor_def CFluidPropConductivity_ctor_void_def
  CViscosityModel.defs CSutherland.defs CConductivityModel.defs CConstantPrandtl.defs
  CFluidPropConductivity.defs

subsection \<open>The Sutherland model: viscosity\<close>

text \<open>In exact arithmetic, on numbers with \<open>T > 0\<close>, \<open>T_ref > 0\<close> and \<open>T + S \<noteq> 0\<close>
  both methods give a number, the value of the real expression.\<close>

lemma CSutherland_SetViscosity_finite:
  assumes "Mu_ref this = Some a" "T_ref this = Some b" "S this = Some s"
    and "0 < x" "0 < b" "x + s \<noteq> 0"
  shows "Mu (CSutherland_SetViscosity exact (Some x) rho this)
       = Some (a * (x / b) powr (3/2) * ((b + s) / (x + s)))"
  using assms by (simp add: CSutherland_SetViscosity_def divide_less_0_iff)

lemma CSutherland_SetDerViscosity_finite:
  assumes "Mu_ref this = Some a" "T_ref this = Some b" "S this = Some s"
    and "0 < t" "0 < b" "t + s \<noteq> 0"
  shows "dmudT_rho (CSutherland_SetDerViscosity exact (Some t) rho this)
       = Some (a * ((3/2) * (t / b) powr (1/2) * ((b + s) / (t + s))
                    - (t / b) powr (3/2) * (b + s) / (t + s) / (t + s)))"
  using assms by (simp add: CSutherland_SetDerViscosity_def Let_def divide_less_0_iff)

text \<open>At \<open>T = T_ref\<close> the machine computes \<open>Mu_ref\<close> without any rounding: \<open>T/T_ref\<close> is
  \<open>1.0\<close>, its power is \<open>1.0\<close>, the quotient of the two equal sums is \<open>1.0\<close>, and the two
  products by \<open>1.0\<close> leave \<open>Mu_ref\<close>. This needs \<open>T_ref\<close> and the sum \<open>T_ref + S\<close>, as the
  machine computes it, to be finite and not zero (a sum that overflows is an infinity, and
  the quotient of two infinities is a NaN), and \<open>Mu_ref\<close> not to be a NaN.\<close>

lemma CSutherland_SetViscosity_T_ref:
  assumes "ieee_identities ar"
    and "fpclassify ar (T_ref this) = FP_NORMAL \<or> fpclassify ar (T_ref this) = FP_SUBNORMAL"
    and "fpclassify ar (d_add ar (T_ref this) (S this)) = FP_NORMAL \<or>
         fpclassify ar (d_add ar (T_ref this) (S this)) = FP_SUBNORMAL"
    and "fpclassify ar (Mu_ref this) \<noteq> FP_NAN"
  shows "Mu (CSutherland_SetViscosity ar (T_ref this) rho this) = Mu_ref this"
proof -
  from assms(1) have
    dv: "\<And>x. fpclassify ar x = FP_NORMAL \<or> fpclassify ar x = FP_SUBNORMAL \<Longrightarrow>
           d_div ar x x = lit ar 1"
    and pw: "\<And>y. d_pow ar (lit ar 1) y = lit ar 1"
    and ml: "\<And>x. fpclassify ar x \<noteq> FP_NAN \<Longrightarrow> d_mul ar x (lit ar 1) = x"
    unfolding ieee_identities_def by blast+
  show ?thesis
    by (simp add: CSutherland_SetViscosity_def dv [OF assms(2)] dv [OF assms(3)] pw
        ml [OF assms(4)])
qed

text \<open>C2, as amended. For every \<open>T\<close> and \<open>rho\<close>, in every arithmetic, \<open>SetViscosity\<close>
  stores in \<open>Mu\<close> the double \<open>Mu_ref*(T/T_ref)^1.5*((T_ref+S)/(T+S))\<close>, which in exact
  arithmetic is the value of the closed form \<open>Mu_ref*(T/T_ref)^1.5*(T_ref+S)/(T+S)\<close> of the
  specification (the code multiplies by the quotient of the sums, the closed form divides
  the product). And in every arithmetic with the three identities, so in that of the
  machine: at \<open>T = T_ref\<close>, when \<open>T_ref\<close> is finite and not zero, the computed sum
  \<open>T_ref + S\<close> is finite and not zero, and \<open>Mu_ref\<close> is not a NaN, the stored \<open>Mu\<close> is
  the double \<open>Mu_ref\<close>.\<close>

theorem CSutherland_SetViscosity_Mu:
  "Mu (CSutherland_SetViscosity ar T' rho' that) =
     d_mul ar
       (d_mul ar (Mu_ref that)
          (d_pow ar (d_div ar T' (T_ref that)) (d_div ar (lit ar 3) (lit ar 2))))
       (d_div ar (d_add ar (T_ref that) (S that)) (d_add ar T' (S that))) \<and>
   Mu (CSutherland_SetViscosity exact T rho this) =
     spec_Sutherland_Mu (Mu_ref this) (T_ref this) (S this) T \<and>
   (ieee_identities ar \<longrightarrow>
    fpclassify ar (T_ref that) = FP_NORMAL \<or> fpclassify ar (T_ref that) = FP_SUBNORMAL \<longrightarrow>
    fpclassify ar (d_add ar (T_ref that) (S that)) = FP_NORMAL \<or>
      fpclassify ar (d_add ar (T_ref that) (S that)) = FP_SUBNORMAL \<longrightarrow>
    fpclassify ar (Mu_ref that) \<noteq> FP_NAN \<longrightarrow>
      Mu (CSutherland_SetViscosity ar (T_ref that) rho' that) = Mu_ref that)"
proof (intro conjI impI)
  show "Mu (CSutherland_SetViscosity ar T' rho' that) =
     d_mul ar
       (d_mul ar (Mu_ref that)
          (d_pow ar (d_div ar T' (T_ref that)) (d_div ar (lit ar 3) (lit ar 2))))
       (d_div ar (d_add ar (T_ref that) (S that)) (d_add ar T' (S that)))"
    by (simp add: CSutherland_SetViscosity_def)
  show "Mu (CSutherland_SetViscosity exact T rho this) =
     spec_Sutherland_Mu (Mu_ref this) (T_ref this) (S this) T"
    by (cases "Mu_ref this"; cases "T_ref this"; cases "S this"; cases T)
       (simp_all add: CSutherland_SetViscosity_def spec_Sutherland_Mu_def)
qed (rule CSutherland_SetViscosity_T_ref)

text \<open>The example of the specification: \<open>Mu_ref = 1.716e-5\<close>, \<open>T_ref = 273.15\<close>,
  \<open>S = 110.4\<close>, \<open>T = 273.15\<close> give \<open>Mu = 1.716e-5\<close>.\<close>

theorem CSutherland_SetViscosity_Mu_witness:
  "ieee_identities exact \<and>
   fpclassify exact (T_ref (CSutherland_ctor exact (Some 0.00001716) (Some 273.15) (Some 110.4)))
     = FP_NORMAL \<and>
   fpclassify exact
     (d_add exact (T_ref (CSutherland_ctor exact (Some 0.00001716) (Some 273.15) (Some 110.4)))
                  (S (CSutherland_ctor exact (Some 0.00001716) (Some 273.15) (Some 110.4))))
     = FP_NORMAL \<and>
   fpclassify exact (Mu_ref (CSutherland_ctor exact (Some 0.00001716) (Some 273.15) (Some 110.4)))
     \<noteq> FP_NAN \<and>
   Mu (CSutherland_SetViscosity exact (Some 273.15) (Some 1.2)
         (CSutherland_ctor exact (Some 0.00001716) (Some 273.15) (Some 110.4)))
     = Some 0.00001716"
  using CSutherland_SetViscosity_Mu [of exact "Some 273.15" "Some 1.2"
      "CSutherland_ctor exact (Some 0.00001716) (Some 273.15) (Some 110.4)"
      "Some 273.15" "Some 1.2"
      "CSutherland_ctor exact (Some 0.00001716) (Some 273.15) (Some 110.4)",
      THEN conjunct2, THEN conjunct2] ieee_identities_exact
  by (simp add: ctor_defs)

text \<open>C2 as it is written asks only that \<open>T_ref + S \<noteq> 0\<close>. That is so for
  \<open>Mu_ref = 1\<close>, \<open>T_ref = 300\<close>, \<open>S\<close> a NaN (a NaN differs from \<open>0.0\<close>), where at
  \<open>T = T_ref = 300\<close> the quotient of the sums is a NaN and so is \<open>Mu\<close>; and for
  \<open>Mu_ref = 1\<close>, \<open>T_ref = 0\<close>, \<open>S = 1\<close>, where at \<open>T = T_ref\<close> the quotient \<open>T/T_ref\<close> is
  \<open>0.0/0.0\<close>, a NaN, and so is \<open>Mu\<close>. Neither \<open>Mu\<close> is \<open>Mu_ref\<close>. No step of the two
  computations rounds, so the exact arithmetic gives what the machine gives.\<close>

theorem CSutherland_SetViscosity_not_Mu_ref:
  "d_add exact (T_ref (CSutherland_ctor exact (Some 1) (Some 300) None))
               (S (CSutherland_ctor exact (Some 1) (Some 300) None)) \<noteq> lit exact 0 \<and>
   Mu (CSutherland_SetViscosity exact (T_ref (CSutherland_ctor exact (Some 1) (Some 300) None))
         (Some 1) (CSutherland_ctor exact (Some 1) (Some 300) None))
     \<noteq> Mu_ref (CSutherland_ctor exact (Some 1) (Some 300) None) \<and>
   d_add exact (T_ref (CSutherland_ctor exact (Some 1) (Some 0) (Some 1)))
               (S (CSutherland_ctor exact (Some 1) (Some 0) (Some 1))) \<noteq> lit exact 0 \<and>
   Mu (CSutherland_SetViscosity exact (T_ref (CSutherland_ctor exact (Some 1) (Some 0) (Some 1)))
         (Some 1) (CSutherland_ctor exact (Some 1) (Some 0) (Some 1)))
     \<noteq> Mu_ref (CSutherland_ctor exact (Some 1) (Some 0) (Some 1))"
  by (simp add: CSutherland_SetViscosity_def ctor_defs)

subsection \<open>The Sutherland model: derivatives\<close>

text \<open>C6: after \<open>SetDerViscosity\<close> the density derivative of the Sutherland model is
  exactly \<open>0.0\<close>, whatever \<open>T\<close>, \<open>rho\<close>, the state of the model and the arithmetic.\<close>

theorem CSutherland_SetDerViscosity_dmudrho_T:
  "dmudrho_T (CSutherland_SetDerViscosity ar T rho this) = lit ar 0"
  by (simp add: CSutherland_SetDerViscosity_def Let_def)

text \<open>C3: for every \<open>T\<close> and \<open>rho\<close>, \<open>SetDerViscosity\<close> stores in \<open>dmudT_rho\<close> the value
  of the closed form of the specification,
  \<open>Mu_ref*[1.5*(T/T_ref)^0.5*(T_ref+S)/(T+S) - (T/T_ref)^1.5*(T_ref+S)/(T+S)^2]\<close>. The code
  divides twice by \<open>T + S\<close> where the closed form divides by the square, and groups the
  first term otherwise; the two agree on every input, also where the result is not a
  number. The equivalence is algebraic: it is stated in exact arithmetic.\<close>

theorem CSutherland_SetDerViscosity_closed_form:
  "dmudT_rho (CSutherland_SetDerViscosity exact T rho this) =
     spec_Sutherland_dMudT (Mu_ref this) (T_ref this) (S this) T"
  by (cases "Mu_ref this"; cases "T_ref this"; cases "S this"; cases T)
     (simp_all add: CSutherland_SetDerViscosity_def spec_Sutherland_dMudT_def Let_def)

text \<open>The derivative of the Sutherland law with respect to the temperature. The factor
  \<open>(T/T_ref)^1.5\<close> contributes \<open>1.5*(T/T_ref)^0.5 / T_ref\<close>: the inner derivative
  \<open>1/T_ref\<close> is part of it.\<close>

lemma Sutherland_law_DERIV:
  fixes a b s t :: real
  assumes "0 < t" "0 < b" "t + s \<noteq> 0"
  shows "((\<lambda>x. a * (x / b) powr (3/2) * ((b + s) / (x + s))) has_real_derivative
      a * ((3/2) * (t / b) powr (1/2) / b * ((b + s) / (t + s))
           - (t / b) powr (3/2) * (b + s) / (t + s) / (t + s))) (at t)"
proof -
  have tb: "0 < t / b" using assms by simp
  have p: "((\<lambda>x. (x / b) powr (3/2)) has_real_derivative
      (3/2) * (t / b) powr (1/2) * (1 / b)) (at t)"
    using tb assms by (auto intro!: derivative_eq_intros)
  have q: "((\<lambda>x. (b + s) / (x + s)) has_real_derivative
      (- b - s) / ((t + s) * (t + s))) (at t)"
    using assms by (auto intro!: derivative_eq_intros simp: power2_eq_square)
  have r: "((\<lambda>x. a * ((x / b) powr (3/2) * ((b + s) / (x + s)))) has_real_derivative
      a * ((t / b) powr (3/2) * ((- b - s) / ((t + s) * (t + s)))
           + (3/2) * (t / b) powr (1/2) * (1 / b) * ((b + s) / (t + s)))) (at t)"
    by (rule DERIV_cmult [OF DERIV_mult' [OF p q]])
  have r': "((\<lambda>x. a * (x / b) powr (3/2) * ((b + s) / (x + s))) has_real_derivative
      a * ((t / b) powr (3/2) * ((- b - s) / ((t + s) * (t + s)))
           + (3/2) * (t / b) powr (1/2) * (1 / b) * ((b + s) / (t + s)))) (at t)"
    using r by (simp only: mult.assoc)
  have alg: "P * ((- b - s) / (u * u)) + (3/2) * Q * (1 / b) * ((b + s) / u)
      = (3/2) * Q / b * ((b + s) / u) - P * (b + s) / u / u" for P Q u :: real
    by (simp add: divide_simps) (simp add: algebra_simps)
  show ?thesis
    by (rule DERIV_cong [OF r']) (simp only: alg)
qed

text \<open>The function of \<open>T\<close> that \<open>SetViscosity\<close> computes has this derivative at every
  \<open>T > 0\<close> with \<open>T + S \<noteq> 0\<close>, when \<open>T_ref > 0\<close>.\<close>

lemma CSutherland_SetViscosity_DERIV:
  assumes m: "Mu_ref this = Some a" "T_ref this = Some b" "S this = Some s"
    and t: "0 < t" "0 < b" "t + s \<noteq> 0"
  shows "((\<lambda>x. the (Mu (CSutherland_SetViscosity exact (Some x) rho this)))
      has_real_derivative
        a * ((3/2) * (t / b) powr (1/2) / b * ((b + s) / (t + s))
             - (t / b) powr (3/2) * (b + s) / (t + s) / (t + s))) (at t)"
proof -
  have op: "open ({0<..} - {- s})" by (rule open_Diff) simp_all
  have mem: "t \<in> {0<..} - {- s}" using t by auto
  have eq: "\<forall>x \<in> {0<..} - {- s}. the (Mu (CSutherland_SetViscosity exact (Some x) rho this))
       = a * (x / b) powr (3/2) * ((b + s) / (x + s))"
  proof
    fix x assume "x \<in> {0<..} - {- s}"
    then have "0 < x" "x + s \<noteq> 0" by auto
    then show "the (Mu (CSutherland_SetViscosity exact (Some x) rho this))
       = a * (x / b) powr (3/2) * ((b + s) / (x + s))"
      using CSutherland_SetViscosity_finite [OF m _ t(2)] by simp
  qed
  have ev: "eventually (\<lambda>x. the (Mu (CSutherland_SetViscosity exact (Some x) rho this))
       = a * (x / b) powr (3/2) * ((b + s) / (x + s))) (nhds t)"
    unfolding eventually_nhds using op mem eq by blast
  show ?thesis
    using Sutherland_law_DERIV [OF t, of a] DERIV_cong_ev [OF refl ev refl] by blast
qed

text \<open>Where \<open>T_ref = 1\<close> the value stored by \<open>SetDerViscosity\<close> is that derivative.\<close>

lemma CSutherland_SetDerViscosity_DERIV_unit_T_ref:
  assumes m: "Mu_ref this = Some a" "T_ref this = Some 1" "S this = Some s"
    and t: "0 < t" "t + s \<noteq> 0"
  shows "\<exists>d. dmudT_rho (CSutherland_SetDerViscosity exact (Some t) rho this) = Some d \<and>
     ((\<lambda>x. the (Mu (CSutherland_SetViscosity exact (Some x) rho this)))
        has_real_derivative d) (at t)"
  using CSutherland_SetDerViscosity_finite [OF m t(1) _ t(2), of rho]
    CSutherland_SetViscosity_DERIV [OF m t(1) _ t(2), of rho]
  by simp

text \<open>C1: the value stored in \<open>dmudT_rho\<close> should be the derivative with respect to \<open>T\<close>
  of the function that \<open>SetViscosity\<close> computes. It is not: the first term of the code has
  no factor \<open>1/T_ref\<close>. For air (\<open>Mu_ref = 1.716e-5\<close>, \<open>T_ref = 273.15\<close>, \<open>S = 110.4\<close>)
  at \<open>T = 273.15\<close> the code stores \<open>1.716e-5 * (1.5 - 1/383.55)\<close>, the derivative of \<open>Mu\<close>
  there is \<open>1.716e-5 * (1.5/273.15 - 1/383.55)\<close>, and the stored value is no derivative
  of \<open>Mu\<close> at that point.\<close>

theorem CSutherland_SetDerViscosity_not_derivative:
  "dmudT_rho (CSutherland_SetDerViscosity exact (Some 273.15) (Some 1.2)
       (CSutherland_ctor exact (Some 0.00001716) (Some 273.15) (Some 110.4)))
     = Some (0.00001716 * (3 / 2 - 1 / 383.55)) \<and>
   ((\<lambda>T. the (Mu (CSutherland_SetViscosity exact (Some T) (Some 1.2)
       (CSutherland_ctor exact (Some 0.00001716) (Some 273.15) (Some 110.4)))))
     has_real_derivative 0.00001716 * (3 / 2 / 273.15 - 1 / 383.55)) (at 273.15) \<and>
   \<not> ((\<lambda>T. the (Mu (CSutherland_SetViscosity exact (Some T) (Some 1.2)
       (CSutherland_ctor exact (Some 0.00001716) (Some 273.15) (Some 110.4)))))
     has_real_derivative 0.00001716 * (3 / 2 - 1 / 383.55)) (at 273.15)"
proof -
  let ?m = "CSutherland_ctor exact (Some 0.00001716) (Some 273.15) (Some 110.4)"
  let ?f = "\<lambda>T. the (Mu (CSutherland_SetViscosity exact (Some T) (Some 1.2) ?m))"
  have m: "Mu_ref ?m = Some 0.00001716" "T_ref ?m = Some 273.15" "S ?m = Some 110.4"
    by (simp_all add: ctor_defs)
  have stored: "dmudT_rho (CSutherland_SetDerViscosity exact (Some 273.15) (Some 1.2) ?m)
     = Some (0.00001716 * (3 / 2 - 1 / 383.55))"
    using CSutherland_SetDerViscosity_finite [OF m, of "273.15" "Some 1.2"] by simp
  have deriv: "(?f has_real_derivative 0.00001716 * (3 / 2 / 273.15 - 1 / 383.55)) (at 273.15)"
    using CSutherland_SetViscosity_DERIV [OF m, of "273.15" "Some 1.2"] by simp
  have differ: "0.00001716 * (3 / 2 - 1 / 383.55)
      \<noteq> (0.00001716 * (3 / 2 / 273.15 - 1 / 383.55) :: real)"
    by simp
  have "\<not> (?f has_real_derivative 0.00001716 * (3 / 2 - 1 / 383.55)) (at 273.15)"
  proof
    assume "(?f has_real_derivative 0.00001716 * (3 / 2 - 1 / 383.55)) (at 273.15)"
    from DERIV_unique [OF this deriv] differ show False by blast
  qed
  with stored deriv show ?thesis by blast
qed

subsection \<open>The models backed by FluidProp\<close>

text \<open>C4: when the message of the library after the call is not \<open>No errors\<close>, each of
  the four methods returns, with the value that the library wrote stored in the members it
  writes (\<open>Mu\<close>; \<open>dmudT_rho\<close> and \<open>dmudrho_T\<close>; \<open>Kt\<close>; \<open>dktdT_rho\<close> and \<open>dktdrho_T\<close>),
  every other member as before, and two lines added to the standard output: the message,
  then the arguments and the value. The methods have no other outcome: there is no
  \<open>throw\<close>, \<open>exit\<close> or \<open>abort\<close> in them.\<close>

theorem FluidProp_error_logged_and_continued:
  assumes "fluidprop_alltransprops fp ''Td'' T rho (library w) = (r, l)"
    and "fluidprop_geterror fp l \<noteq> ''No errors''"
  shows
   "CFluidPropViscosity_SetViscosity fp T rho (v, w) =
      (v\<lparr>Mu := eta r\<rparr>,
       w\<lparr>library := l,
         stdout := stdout w @
           [(''FluidProp error message: %s'' @ [CHR 0x0A], [Str (fluidprop_geterror fp l)]),
            (''T = %f, rho = %f, mu = %f'' @ [CHR 0x0A], [Dbl T, Dbl rho, Dbl (eta r)])]\<rparr>) \<and>
    CFluidPropViscosity_SetDerViscosity fp T rho (v, w) =
      (v\<lparr>dmudT_rho := deta_dT r, dmudrho_T := deta_drho r\<rparr>,
       w\<lparr>library := l,
         stdout := stdout w @
           [(''FluidProp error message: %s'' @ [CHR 0x0A], [Str (fluidprop_geterror fp l)]),
            (''T = %f, rho = %f, dmudT_rho = %f, dmudrho_dT = %f'' @ [CHR 0x0A],
             [Dbl T, Dbl rho, Dbl (deta_dT r), Dbl (deta_dT r)])]\<rparr>) \<and>
    CFluidPropConductivity_SetConductivity fp T rho mu cp (k, w) =
      (k\<lparr>Kt := lambda r\<rparr>,
       w\<lparr>library := l,
         stdout := stdout w @
           [(''FluidProp error message: %s'' @ [CHR 0x0A], [Str (fluidprop_geterror fp l)]),
            (''T = %f, rho = %f, Kt = %f'' @ [CHR 0x0A], [Dbl T, Dbl rho, Dbl (lambda r)])]\<rparr>) \<and>
    CFluidPropConductivity_SetDerConductivity fp T rho dr dt cp (k, w) =
      (k\<lparr>dktdT_rho := dlambda_dT r, dktdrho_T := dlambda_drho r\<rparr>,
       w\<lparr>library := l,
         stdout := stdout w @
           [(''FluidProp error message: %s'' @ [CHR 0x0A], [Str (fluidprop_geterror fp l)]),
            (''T = %f, rho = %f, dktdT_rho = %f, dktdrho_dT = %f'' @ [CHR 0x0A],
             [Dbl T, Dbl rho, Dbl (dlambda_dT r), Dbl (dlambda_dT r)])]\<rparr>)"
  using assms
  by (simp add: CFluidPropViscosity_SetViscosity_def CFluidPropViscosity_SetDerViscosity_def
      CFluidPropConductivity_SetConductivity_def CFluidPropConductivity_SetDerConductivity_def
      printf_def Let_def)

theorem FluidProp_error_logged_and_continued_witness:
  "fluidprop_alltransprops failing_fluidprop ''Td'' (Some 300) (Some 1.2)
       (library \<lparr>library = ''No errors'', stdout = []\<rparr>) =
     (\<lparr>eta = Some 1, deta_dT = Some 2, deta_drho = Some 3, lambda = Some 4,
         dlambda_dT = Some 5, dlambda_drho = Some 6, sigma = Some 7\<rparr>, ''Input out of range'') \<and>
   fluidprop_geterror failing_fluidprop ''Input out of range'' \<noteq> ''No errors'' \<and>
   CFluidPropViscosity_SetViscosity failing_fluidprop (Some 300) (Some 1.2)
       (CFluidPropViscosity_ctor exact, \<lparr>library = ''No errors'', stdout = []\<rparr>) =
     (\<lparr>Mu = Some 1, dmudrho_T = Some 0, dmudT_rho = Some 0\<rparr>,
      \<lparr>library = ''Input out of range'',
       stdout = [(''FluidProp error message: %s'' @ [CHR 0x0A], [Str ''Input out of range'']),
                 (''T = %f, rho = %f, mu = %f'' @ [CHR 0x0A],
                  [Dbl (Some 300), Dbl (Some 1.2), Dbl (Some 1)])]\<rparr>) \<and>
   CFluidPropConductivity_SetDerConductivity failing_fluidprop (Some 300) (Some 1.2)
       (Some 0) (Some 0) (Some 1004.5)
       (CFluidPropConductivity_ctor exact (Some 0.72),
        \<lparr>library = ''No errors'', stdout = []\<rparr>) =
     (\<lparr>Kt = Some 0, dktdrho_T = Some 6, dktdT_rho = Some 5,
       CFluidPropConductivity.Pr_const = Some 0.72\<rparr>,
      \<lparr>library = ''Input out of range'',
       stdout = [(''FluidProp error message: %s'' @ [CHR 0x0A], [Str ''Input out of range'']),
                 (''T = %f, rho = %f, dktdT_rho = %f, dktdrho_dT = %f'' @ [CHR 0x0A],
                  [Dbl (Some 300), Dbl (Some 1.2), Dbl (Some 5), Dbl (Some 5)])]\<rparr>)"
  using FluidProp_error_logged_and_continued [of failing_fluidprop "Some 300" "Some 1.2"
      "\<lparr>library = ''No errors'', stdout = []\<rparr>"
      "\<lparr>eta = Some 1, deta_dT = Some 2, deta_drho = Some 3, lambda = Some 4,
         dlambda_dT = Some 5, dlambda_drho = Some 6, sigma = Some 7\<rparr>" "''Input out of range''"
      "CFluidPropViscosity_ctor exact" "Some 0" "Some 1004.5"
      "CFluidPropConductivity_ctor exact (Some 0.72)" "Some 0" "Some 0"]
  by (simp add: failing_fluidprop_def ctor_defs)

subsection \<open>The constant Prandtl number model\<close>

text \<open>C5: the constructor stores \<open>Pr\<close> in \<open>Pr_const\<close>, and in every arithmetic, so with
  the rounding of the machine, for every \<open>T\<close>, \<open>rho\<close>, \<open>mu\<close>, \<open>cp\<close>, \<open>SetConductivity\<close>
  stores in \<open>Kt\<close> exactly the double \<open>mu*cp/Pr_const\<close>, the product divided by
  \<open>Pr_const\<close>, and for every \<open>dmudrho_T\<close>, \<open>dmudT_rho\<close>, \<open>cp\<close>, \<open>SetDerConductivity\<close>
  stores \<open>dktdrho_T = dmudrho_T*cp/Pr_const\<close> and \<open>dktdT_rho = dmudT_rho*cp/Pr_const\<close>.
  Nothing is asked of \<open>Pr_const\<close>: the statement holds for \<open>Pr > 0\<close> and for every other
  double.\<close>

theorem CConstantPrandtl_results:
  "CConstantPrandtl.Pr_const (CConstantPrandtl_ctor ar pr) = pr \<and>
   Kt (CConstantPrandtl_SetConductivity ar T rho mu cp this)
     = d_div ar (d_mul ar mu cp) (CConstantPrandtl.Pr_const this) \<and>
   dktdrho_T (CConstantPrandtl_SetDerConductivity ar T rho dr dt cp this)
     = d_div ar (d_mul ar dr cp) (CConstantPrandtl.Pr_const this) \<and>
   dktdT_rho (CConstantPrandtl_SetDerConductivity ar T rho dr dt cp this)
     = d_div ar (d_mul ar dt cp) (CConstantPrandtl.Pr_const this)"
  by (simp add: CConstantPrandtl_SetConductivity_def CConstantPrandtl_SetDerConductivity_def
      Let_def ctor_defs)

text \<open>C10: what the constant Prandtl number model stores does not depend on \<open>T\<close> and
  \<open>rho\<close>: two objects with the same \<open>Pr_const\<close>, called with the same \<open>mu\<close> and \<open>cp\<close>
  (the same \<open>dmudrho_T\<close>, \<open>dmudT_rho\<close> and \<open>cp\<close>) and any temperatures and densities,
  store the same \<open>Kt\<close> (the same two derivatives).\<close>

theorem CConstantPrandtl_independent_of_T_rho:
  assumes "CConstantPrandtl.Pr_const this1 = CConstantPrandtl.Pr_const this2"
  shows "Kt (CConstantPrandtl_SetConductivity ar T1 rho1 mu cp this1) =
         Kt (CConstantPrandtl_SetConductivity ar T2 rho2 mu cp this2) \<and>
         dktdrho_T (CConstantPrandtl_SetDerConductivity ar T1 rho1 dr dt cp this1) =
         dktdrho_T (CConstantPrandtl_SetDerConductivity ar T2 rho2 dr dt cp this2) \<and>
         dktdT_rho (CConstantPrandtl_SetDerConductivity ar T1 rho1 dr dt cp this1) =
         dktdT_rho (CConstantPrandtl_SetDerConductivity ar T2 rho2 dr dt cp this2)"
  using assms
  by (simp add: CConstantPrandtl_SetConductivity_def CConstantPrandtl_SetDerConductivity_def
      Let_def)

theorem CConstantPrandtl_independent_of_T_rho_witness:
  "CConstantPrandtl.Pr_const (CConstantPrandtl_ctor exact (Some 0.72)) =
     CConstantPrandtl.Pr_const ((CConstantPrandtl_ctor exact (Some 0.72))\<lparr>Kt := Some 5\<rparr>) \<and>
   Kt (CConstantPrandtl_SetConductivity exact (Some 300) (Some 1.2) (Some 0.000018)
        (Some 1004.5) (CConstantPrandtl_ctor exact (Some 0.72))) =
   Kt (CConstantPrandtl_SetConductivity exact (Some 1500) None (Some 0.000018)
        (Some 1004.5) ((CConstantPrandtl_ctor exact (Some 0.72))\<lparr>Kt := Some 5\<rparr>))"
  using CConstantPrandtl_independent_of_T_rho [of "CConstantPrandtl_ctor exact (Some 0.72)"
      "(CConstantPrandtl_ctor exact (Some 0.72))\<lparr>Kt := Some 5\<rparr>" exact "Some 300" "Some 1.2"
      "Some 0.000018" "Some 1004.5" "Some 1500" None]
  by (simp add: ctor_defs)

subsection \<open>Parameters, constants and repeated calls\<close>

text \<open>C7: on the constant viscosity model and the constant conductivity model every
  evaluation call returns the object as it was, for every argument; after construction
  \<open>Mu\<close> (\<open>Kt\<close>) is the constant given and both derivatives are exactly zero.\<close>

theorem Constant_models_unchanged:
  "CConstantViscosity_SetViscosity T rho v = v \<and>
   CConstantViscosity_SetDerViscosity T rho v = v \<and>
   CConstantViscosity_ctor ar mu_const =
     \<lparr>Mu = mu_const, dmudrho_T = lit ar 0, dmudT_rho = lit ar 0\<rparr> \<and>
   CConstantConductivity_SetConductivity T rho mu cp k = k \<and>
   CConstantConductivity_SetDerConductivity T rho dr dt cp k = k \<and>
   CConstantConductivity_ctor ar kt_const =
     \<lparr>Kt = kt_const, dktdrho_T = lit ar 0, dktdT_rho = lit ar 0\<rparr>"
  by (simp add: CConstantViscosity_SetViscosity_def CConstantViscosity_SetDerViscosity_def
      CConstantConductivity_SetConductivity_def CConstantConductivity_SetDerConductivity_def
      CConstantViscosity_ctor_def CConstantConductivity_ctor_def CViscosityModel_ctor_def
      CConductivityModel_ctor_def)

lemma CSutherland_call_params:
  "Mu_ref (CSutherland_call ar c this) = Mu_ref this \<and>
   T_ref (CSutherland_call ar c this) = T_ref this \<and>
   S (CSutherland_call ar c this) = S this"
  by (cases c)
     (simp_all add: CSutherland_SetViscosity_def CSutherland_SetDerViscosity_def Let_def)

lemma CSutherland_calls_params:
  "Mu_ref (fold (CSutherland_call ar) cs this) = Mu_ref this \<and>
   T_ref (fold (CSutherland_call ar) cs this) = T_ref this \<and>
   S (fold (CSutherland_call ar) cs this) = S this"
  by (induction cs arbitrary: this) (simp_all add: CSutherland_call_params)

lemma CConstantPrandtl_call_params:
  "CConstantPrandtl.Pr_const (CConstantPrandtl_call ar c this)
     = CConstantPrandtl.Pr_const this"
  by (cases c)
     (simp_all add: CConstantPrandtl_SetConductivity_def
        CConstantPrandtl_SetDerConductivity_def Let_def)

lemma CConstantPrandtl_calls_params:
  "CConstantPrandtl.Pr_const (fold (CConstantPrandtl_call ar) cs this)
     = CConstantPrandtl.Pr_const this"
  by (induction cs arbitrary: this) (simp_all add: CConstantPrandtl_call_params)

lemma CFluidPropConductivity_call_params:
  "CFluidPropConductivity.Pr_const (fst (CFluidPropConductivity_call fp c tw)) =
   CFluidPropConductivity.Pr_const (fst tw)"
  by (cases c; cases tw)
     (simp_all add: CFluidPropConductivity_SetConductivity_def
        CFluidPropConductivity_SetDerConductivity_def Let_def split: prod.splits)

lemma CFluidPropConductivity_calls_params:
  "CFluidPropConductivity.Pr_const (fst (fold (CFluidPropConductivity_call fp) cs tw)) =
   CFluidPropConductivity.Pr_const (fst tw)"
  by (induction cs arbitrary: tw) (simp_all add: CFluidPropConductivity_call_params)

lemma CConstantViscosity_calls_id: "fold CConstantViscosity_call cs this = this"
proof (induction cs)
  case Nil
  show ?case by simp
next
  case (Cons c cs)
  then show ?case
    by (cases c)
       (simp_all add: CConstantViscosity_SetViscosity_def CConstantViscosity_SetDerViscosity_def)
qed

lemma CConstantConductivity_calls_id: "fold CConstantConductivity_call cs this = this"
proof (induction cs)
  case Nil
  show ?case by simp
next
  case (Cons c cs)
  then show ?case
    by (cases c)
       (simp_all add: CConstantConductivity_SetConductivity_def
          CConstantConductivity_SetDerConductivity_def)
qed

text \<open>C8: after any sequence of evaluation calls on a model the parameters given to its
  constructor are still in place: \<open>Mu_ref\<close>, \<open>T_ref\<close> and \<open>S\<close> of the Sutherland model,
  \<open>Pr_const\<close> of the constant Prandtl number model and of the FluidProp conductivity
  model (whatever the library does), the constant of the two constant models.\<close>

theorem parameters_unchanged:
  "Mu_ref (fold (CSutherland_call ar) vs (CSutherland_ctor ar mu_ref t_ref s)) = mu_ref \<and>
   T_ref (fold (CSutherland_call ar) vs (CSutherland_ctor ar mu_ref t_ref s)) = t_ref \<and>
   S (fold (CSutherland_call ar) vs (CSutherland_ctor ar mu_ref t_ref s)) = s \<and>
   CConstantPrandtl.Pr_const
     (fold (CConstantPrandtl_call ar) ks (CConstantPrandtl_ctor ar pr_const)) = pr_const \<and>
   CFluidPropConductivity.Pr_const
     (fst (fold (CFluidPropConductivity_call fp) ks
             (CFluidPropConductivity_ctor ar pr_const, w)))
     = pr_const \<and>
   Mu (fold CConstantViscosity_call vs (CConstantViscosity_ctor ar mu_const)) = mu_const \<and>
   Kt (fold CConstantConductivity_call ks (CConstantConductivity_ctor ar kt_const)) = kt_const"
  by (simp add: CSutherland_calls_params CConstantPrandtl_calls_params
      CFluidPropConductivity_calls_params CConstantViscosity_calls_id
      CConstantConductivity_calls_id ctor_defs)

text \<open>C9: on the constant models, the Sutherland model and the constant Prandtl number
  model, an evaluation call made a second time with the same arguments leaves the object
  as the first call left it.\<close>

theorem evaluation_idempotent:
  "CConstantViscosity_call c (CConstantViscosity_call c v) = CConstantViscosity_call c v \<and>
   CSutherland_call ar c (CSutherland_call ar c su) = CSutherland_call ar c su \<and>
   CConstantConductivity_call d (CConstantConductivity_call d k)
     = CConstantConductivity_call d k \<and>
   CConstantPrandtl_call ar d (CConstantPrandtl_call ar d p) = CConstantPrandtl_call ar d p"
  by (cases c; cases d)
     (simp_all add: CConstantViscosity_SetViscosity_def CConstantViscosity_SetDerViscosity_def
        CConstantConductivity_SetConductivity_def CConstantConductivity_SetDerConductivity_def
        CSutherland_SetViscosity_def CSutherland_SetDerViscosity_def
        CConstantPrandtl_SetConductivity_def CConstantPrandtl_SetDerConductivity_def Let_def)

end
